theory Spec2Isabelle
  imports Complex_Main "HOL-Library.Sublist" "HOL-Library.Log_Nat"
begin

section \<open>JavaScript values used by the two servers\<close>

text \<open>
  The repository holds two back ends behind the same routes: the enhanced server
  (class \<open>EnhancedDQNModel\<close>, prerequisite aware) and the earlier server of
  \<open>backend/server.js\<close> (class \<open>MockDQNModel\<close>). Both are embedded here; the
  definitions of the earlier one carry the prefix \<open>Mock_\<close>.

  A grid coordinate is a JavaScript number, a double. The model keeps the integers and
  one more value, \<open>NaN\<close>, which also stands for a coordinate that is missing from a
  request (\<open>undefined\<close>): every ordering comparison with it is false, \<open>!==\<close>
  against a number is true, and \<open>++\<close> and \<open>--\<close> leave it \<open>NaN\<close>. The target of
  a path is a position of the catalog, a number in every case, so \<open>!==\<close> never
  compares two missing values. Fractions, infinities and strings in coordinate position
  are outside the model.

  \<open>++\<close> and \<open>--\<close> add and subtract one in double arithmetic: the exact result is
  rounded to the nearest double, a tie going to the even significand. Up to the
  magnitude \<open>2 ^ 53\<close> every integer is a double and the step is exact; beyond it the
  doubles are \<open>2 ^ e\<close> apart (\<open>e\<close> the number of bits above 53) and a step of one
  is rounded away or doubled.
\<close>

datatype jsnum = Num int | NaN

definition safeBound :: int where
  "safeBound = 2 ^ 53"

definition toDouble :: "int \<Rightarrow> int" where
  "toDouble n =
     (if \<bar>n\<bar> \<le> safeBound then n
      else
        (let unit = 2 ^ nat (bitlen \<bar>n\<bar> - 53);
             q = \<bar>n\<bar> div unit;
             r = \<bar>n\<bar> mod unit;
             rounded = (if 2 * r < unit then q
                        else if unit < 2 * r then q + 1
                        else if even q then q else q + 1)
         in sgn n * rounded * unit))"

fun js_lt :: "jsnum \<Rightarrow> jsnum \<Rightarrow> bool" where
  "js_lt (Num a) (Num b) = (a < b)"
| "js_lt _ _ = False"

fun js_neq :: "jsnum \<Rightarrow> jsnum \<Rightarrow> bool" where
  "js_neq (Num a) (Num b) = (a \<noteq> b)"
| "js_neq _ _ = True"

fun js_incr :: "jsnum \<Rightarrow> jsnum" where
  "js_incr (Num a) = Num (toDouble (a + 1))"
| "js_incr NaN = NaN"

fun js_decr :: "jsnum \<Rightarrow> jsnum" where
  "js_decr (Num a) = Num (toDouble (a - 1))"
| "js_decr NaN = NaN"

fun js_max :: "jsnum \<Rightarrow> jsnum \<Rightarrow> jsnum" where
  "js_max (Num a) (Num b) = Num (max a b)"
| "js_max _ _ = NaN"

fun js_min :: "jsnum \<Rightarrow> jsnum \<Rightarrow> jsnum" where
  "js_min (Num a) (Num b) = Num (min a b)"
| "js_min _ _ = NaN"

fun js_sub :: "jsnum \<Rightarrow> jsnum \<Rightarrow> jsnum" where
  "js_sub (Num a) (Num b) = Num (a - b)"
| "js_sub _ _ = NaN"

text \<open>
  \<open>prerequisites\<close> and \<open>learningPaths\<close> are object literals, read with
  \<open>obj[key]\<close>. Such a read finds the object's own properties first and then those it
  inherits from \<open>Object.prototype\<close>; the inherited values are functions (and, for
  \<open>__proto__\<close>, the prototype object): truthy, without an \<open>every\<close> method, and not
  iterable.
\<close>

definition objectPrototypeKeys :: "string list" where
  "objectPrototypeKeys =
     [''constructor'', ''__defineGetter__'', ''__defineSetter__'', ''hasOwnProperty'',
      ''__lookupGetter__'', ''__lookupSetter__'', ''isPrototypeOf'',
      ''propertyIsEnumerable'', ''toString'', ''valueOf'', ''__proto__'',
      ''toLocaleString'']"

datatype 'a property = Own 'a | Inherited | Undefined

definition getProperty :: "(string \<times> 'a) list \<Rightarrow> string \<Rightarrow> 'a property" where
  "getProperty obj k =
     (case map_of obj k of
        Some v \<Rightarrow> Own v
      | None \<Rightarrow> if k \<in> set objectPrototypeKeys then Inherited else Undefined)"

text \<open>
  \<open>completedResources\<close> is a JavaScript \<open>Set\<close>: its members are distinct and kept
  in insertion order. It is a list here; \<open>add\<close> appends a value that is not a member
  yet and leaves the list alone otherwise; \<open>size\<close> is the length.
\<close>

definition has :: "string list \<Rightarrow> string \<Rightarrow> bool" where
  "has s v = (v \<in> set s)"

definition add :: "string list \<Rightarrow> string \<Rightarrow> string list" where
  "add s v = (if has s v then s else s @ [v])"

datatype error = TypeError

section \<open>The enhanced server: EnhancedDQNModel\<close>

record dqnModel =
  gridSizeX :: int
  gridSizeY :: int
  prerequisites :: "(string \<times> string list) list"
  learningPaths :: "(string \<times> string list) list"

definition loadPrerequisites :: "(string \<times> string list) list" where
  "loadPrerequisites =
    [(''Logical Equivalence'', [''Introduction to Mathematical Logic'']),
     (''Rules of Inference'', [''Introduction to Mathematical Logic'', ''Logical Equivalence'']),
     (''Resolution'', [''Logical Equivalence'', ''Rules of Inference'']),
     (''SAT Problem'', [''Logical Equivalence'', ''Rules of Inference'']),
     (''Tutorial 1: Part I'', [''Introduction to Mathematical Logic'', ''Logical Equivalence'']),
     (''Tutorial 1: Part II'', [''Tutorial 1: Part I'', ''Rules of Inference'']),
     (''Predicate Logic'', [''Rules of Inference'', ''Resolution'']),
     (''Rules of Inferences in Predicate Logic'', [''Predicate Logic'']),
     (''Proof Strategies I'', [''Rules of Inference'', ''Predicate Logic'']),
     (''Proof Strategies II'', [''Proof Strategies I'']),
     (''Induction'', [''Proof Strategies I'']),
     (''Tutorial 2: Part I'', [''Predicate Logic'', ''Proof Strategies I'']),
     (''Tutorial 2: Part II'', [''Tutorial 2: Part I'', ''Induction'']),
     (''Sets'', [''Introduction to Mathematical Logic'']),
     (''Relations'', [''Sets'']),
     (''Operations on Relations'', [''Relations'']),
     (''Functions'', [''Relations'', ''Sets'']),
     (''Graph Theory Basics'', [''Sets'', ''Relations'']),
     (''Basic Rules of Counting'', [''Sets'']),
     (''Modular Arithmetic'', [''Basic Rules of Counting'']),
     (''Group Theory'', [''Modular Arithmetic'']),
     (''Applications of Finite Fields'', [''Group Theory''])]"

definition loadLearningPaths :: "(string \<times> string list) list" where
  "loadLearningPaths =
    [(''basic_logic'',
        [''Introduction to Mathematical Logic'', ''Logical Equivalence'',
         ''Rules of Inference'', ''Tutorial 1: Part I'']),
     (''complete_course'',
        [''Introduction to Mathematical Logic'', ''Logical Equivalence'',
         ''Rules of Inference'', ''Sets'', ''Relations'', ''Functions'',
         ''Basic Rules of Counting'', ''Graph Theory Basics'', ''Modular Arithmetic'',
         ''Group Theory''])]"

definition EnhancedDQNModel :: dqnModel where
  "EnhancedDQNModel =
     \<lparr>gridSizeX = 20, gridSizeY = 20,
      prerequisites = loadPrerequisites, learningPaths = loadLearningPaths\<rparr>"

text \<open>
  \<open>checkPrerequisites\<close>: \<open>this.prerequisites[resourceName] || []\<close>, then
  \<open>every\<close>. On an inherited property the value has no \<open>every\<close> and the call
  raises a \<open>TypeError\<close>.
\<close>

definition checkPrerequisites :: "dqnModel \<Rightarrow> string \<Rightarrow> string list \<Rightarrow> error + bool" where
  "checkPrerequisites m resourceName completedResources =
     (case getProperty (prerequisites m) resourceName of
        Own prereqs \<Rightarrow> Inr (list_all (has completedResources) prereqs)
      | Inherited \<Rightarrow> Inl TypeError
      | Undefined \<Rightarrow> Inr (list_all (has completedResources) []))"

text \<open>
  \<open>extractedData\<close> is the parsed data file, a parameter of the model: the entries
  as \<open>Object.entries\<close> lists them, each with the two fields as \<open>parseFloat\<close>
  reads them. \<open>parseFloat\<close> yields a finite number or, for a field that is missing or
  not numeric, \<open>NaN\<close>. The product with the grid dimension is taken over the reals;
  the rounding of the floating-point product is not modelled.
\<close>

datatype coordinate = Finite real | NotANumber

record entry =
  x_coordinate :: coordinate
  y_coordinate :: coordinate

type_synonym extracted = "(string \<times> entry) list"

record resource =
  r_name :: string
  r_x :: jsnum
  r_y :: jsnum

record position =
  p_x :: jsnum
  p_y :: jsnum

record pathStep =
  s_x :: jsnum
  s_y :: jsnum
  action :: string
  step :: "nat option"

text \<open>\<open>Math.floor(parseFloat(v) * scale)\<close>\<close>

fun floorScaled :: "coordinate \<Rightarrow> int \<Rightarrow> jsnum" where
  "floorScaled (Finite v) scale = Num \<lfloor>v * of_int scale\<rfloor>"
| "floorScaled NotANumber scale = NaN"

definition getResourcePositions :: "dqnModel \<Rightarrow> extracted \<Rightarrow> resource list" where
  "getResourcePositions m extractedData =
     map (\<lambda>(name, data).
            let x = floorScaled (x_coordinate data) (gridSizeX m);
                y = floorScaled (y_coordinate data) (gridSizeY m);
                boundedX = js_max (Num 0) (js_min x (Num (gridSizeX m - 1)));
                boundedY = js_max (Num 0) (js_min y (Num (gridSizeY m - 1)))
            in \<lparr>r_name = name, r_x = boundedX, r_y = boundedY\<rparr>)
         extractedData"

text \<open>
  \<open>getAvailableResources\<close>: the filter calls \<open>checkPrerequisites\<close> only on the
  resources that are not completed (\<open>&&\<close> short-circuits); an exception raised by
  one call ends the whole filter.
\<close>

fun filterAvailable :: "dqnModel \<Rightarrow> string list \<Rightarrow> resource list \<Rightarrow> error + resource list" where
  "filterAvailable m completedResources [] = Inr []"
| "filterAvailable m completedResources (r # rs) =
     (if has completedResources (r_name r) then filterAvailable m completedResources rs
      else case checkPrerequisites m (r_name r) completedResources of
             Inl e \<Rightarrow> Inl e
           | Inr ok \<Rightarrow>
               (case filterAvailable m completedResources rs of
                  Inl e \<Rightarrow> Inl e
                | Inr rest \<Rightarrow> Inr (if ok then r # rest else rest)))"

definition getAvailableResources ::
  "dqnModel \<Rightarrow> extracted \<Rightarrow> string list \<Rightarrow> error + resource list" where
  "getAvailableResources m extractedData completedResources =
     filterAvailable m completedResources (getResourcePositions m extractedData)"

text \<open>
  \<open>getNextRecommendedResource\<close>. The loop over the learning path returns at the
  first resource that is not completed and whose prerequisites hold; after the loop,
  the first available resource of the catalog, or \<open>null\<close> (\<open>None\<close>). An inherited
  property in the place of the learning path is not iterable: \<open>for ... of\<close> raises.
\<close>

fun scanLearningPath :: "dqnModel \<Rightarrow> string list \<Rightarrow> string list \<Rightarrow> error + string option" where
  "scanLearningPath m completedResources [] = Inr None"
| "scanLearningPath m completedResources (r # rs) =
     (if has completedResources r then scanLearningPath m completedResources rs
      else case checkPrerequisites m r completedResources of
             Inl e \<Rightarrow> Inl e
           | Inr ok \<Rightarrow> if ok then Inr (Some r) else scanLearningPath m completedResources rs)"

definition getNextRecommendedResource ::
  "dqnModel \<Rightarrow> extracted \<Rightarrow> string list \<Rightarrow> string \<Rightarrow> error + string option" where
  "getNextRecommendedResource m extractedData completedResources goal =
     (case (case getProperty (learningPaths m) goal of
              Undefined \<Rightarrow> getProperty (learningPaths m) ''complete_course''
            | found \<Rightarrow> found) of
        Own learningPath \<Rightarrow>
          (case scanLearningPath m completedResources learningPath of
             Inl e \<Rightarrow> Inl e
           | Inr (Some r) \<Rightarrow> Inr (Some r)
           | Inr None \<Rightarrow>
               (case getAvailableResources m extractedData completedResources of
                  Inl e \<Rightarrow> Inl e
                | Inr [] \<Rightarrow> Inr None
                | Inr (a # _) \<Rightarrow> Inr (Some (r_name a))))
      | _ \<Rightarrow> Inl TypeError)"

text \<open>
  \<open>generateDQNPath\<close>. \<open>Math.random() < 0.5\<close> is read from \<open>coin\<close>, indexed by
  the number of steps taken so far: any sequence of outcomes is some \<open>coin\<close>. The
  \<open>confidence\<close> field of a step, a random float, is left out of \<open>pathStep\<close>.
\<close>

definition maxSteps :: nat where
  "maxSteps = 20"

function generateDQNPath_loop ::
  "dqnModel \<Rightarrow> (nat \<Rightarrow> bool) \<Rightarrow> resource \<Rightarrow> position \<Rightarrow> nat \<Rightarrow> pathStep list \<Rightarrow> pathStep list" where
  "generateDQNPath_loop m coin target current steps path =
     (if steps < maxSteps \<and> (js_neq (p_x current) (r_x target) \<or> js_neq (p_y current) (r_y target))
      then
        (case (if js_lt (p_x current) (r_x target) \<and> js_lt (p_y current) (r_y target)
               then Some (if coin steps then 1 else 0)
               else if js_lt (p_x current) (r_x target) then Some 1
               else if js_lt (p_y current) (r_y target) then Some 0
               else None) of
           None \<Rightarrow> path
         | Some (act :: nat) \<Rightarrow>
             if act = 0 \<and> js_lt (p_y current) (Num (gridSizeY m - 1)) then
               generateDQNPath_loop m coin target (current\<lparr>p_y := js_incr (p_y current)\<rparr>) (steps + 1)
                 (path @ [\<lparr>s_x = p_x current, s_y = js_incr (p_y current),
                            action = ''UP'', step = Some (steps + 1)\<rparr>])
             else if act = 1 \<and> js_lt (p_x current) (Num (gridSizeX m - 1)) then
               generateDQNPath_loop m coin target (current\<lparr>p_x := js_incr (p_x current)\<rparr>) (steps + 1)
                 (path @ [\<lparr>s_x = js_incr (p_x current), s_y = p_y current,
                            action = ''RIGHT'', step = Some (steps + 1)\<rparr>])
             else path)
      else path)"
  by pat_completeness auto
termination
  by (relation "measure (\<lambda>(m, coin, target, current, steps, path). maxSteps - steps)") auto

declare generateDQNPath_loop.simps [simp del]

definition generateDQNPath ::
  "dqnModel \<Rightarrow> (nat \<Rightarrow> bool) \<Rightarrow> position \<Rightarrow> resource \<Rightarrow> pathStep list" where
  "generateDQNPath m coin start target = generateDQNPath_loop m coin target start 0 []"

definition marker :: "dqnModel \<Rightarrow> string \<Rightarrow> pathStep list" where
  "marker m a =
     [\<lparr>s_x = Num (gridSizeX m - 1), s_y = Num (gridSizeY m - 1), action = a, step = None\<rparr>]"

definition predictPath ::
  "dqnModel \<Rightarrow> extracted \<Rightarrow> (nat \<Rightarrow> bool) \<Rightarrow> position \<Rightarrow> string list \<Rightarrow> string
     \<Rightarrow> error + pathStep list" where
  "predictPath m extractedData coin currentPos completedResources goal =
     (case getAvailableResources m extractedData completedResources of
        Inl e \<Rightarrow> Inl e
      | Inr [] \<Rightarrow> Inr (marker m ''goal_reached'')
      | Inr (_ # _) \<Rightarrow>
          (case getNextRecommendedResource m extractedData completedResources goal of
             Inl e \<Rightarrow> Inl e
           | Inr None \<Rightarrow> Inr (marker m ''path_complete'')
           | Inr (Some nextResource) \<Rightarrow>
               if nextResource = [] then Inr (marker m ''path_complete'')
               else (case find (\<lambda>r. r_name r = nextResource) (getResourcePositions m extractedData) of
                       None \<Rightarrow> Inr (marker m ''resource_not_found'')
                     | Some targetResource \<Rightarrow>
                         Inr (generateDQNPath m coin currentPos targetResource))))"

section \<open>The enhanced server: learner progress and the routes that change it\<close>

text \<open>
  \<open>learnerProgress\<close> is the one mutable object of the process; every route takes it
  and returns it. A history entry keeps the path, the position it starts from and the
  goal; its timestamp and its float confidence are left out.
\<close>

record historyEntry =
  h_path :: "pathStep list"
  h_fromPosition :: position
  h_goal :: string

record learnerProgress =
  completedResources :: "string list"
  currentPosition :: position
  totalResources :: nat
  score :: int
  pathHistory :: "historyEntry list"
  currentGoal :: string
  sessionStartTime :: int
  achievements :: "string list"

definition freshProgress :: "extracted \<Rightarrow> int \<Rightarrow> learnerProgress" where
  "freshProgress extractedData now =
     \<lparr>completedResources = [],
      currentPosition = \<lparr>p_x = Num 0, p_y = Num 0\<rparr>,
      totalResources = length extractedData,
      score = 0,
      pathHistory = [],
      currentGoal = ''complete_course'',
      sessionStartTime = now,
      achievements = []\<rparr>"

definition unlock :: "nat \<Rightarrow> string list \<Rightarrow> nat \<Rightarrow> string \<Rightarrow> string list" where
  "unlock completed unlocked threshold name =
     (if completed \<ge> threshold \<and> \<not> name \<in> set unlocked then [name] else [])"

definition checkAchievements :: "learnerProgress \<Rightarrow> learnerProgress" where
  "checkAchievements p =
     (let completed = length (completedResources p);
          newAchievements =
            unlock completed (achievements p) 1 ''First Steps'' @
            unlock completed (achievements p) 5 ''Getting Started'' @
            unlock completed (achievements p) 10 ''Making Progress'' @
            unlock completed (achievements p) 20 ''Dedicated Learner'' @
            unlock completed (achievements p) 50 ''Expert''
      in p\<lparr>achievements := achievements p @ newAchievements\<rparr>)"

datatype response =
    NameRequired
  | PrerequisitesNotMet "string list"
  | Failed string
  | Completed nat nat int "string list" "resource list"
  | InvalidGoal "string list"
  | GoalSet string "string list option"
  | Suggested "pathStep list" string "string option" nat
  | ResetDone

text \<open>
  \<open>POST /api/complete\<close>. An empty \<open>resourceName\<close> stands for a missing one as
  well (both are falsy); \<open>position\<close> is \<open>None\<close> when the request gives none. An
  exception anywhere in the handler is caught and answered with status 500; what was
  written to \<open>learnerProgress\<close> before it stays written.
\<close>

definition api_complete ::
  "dqnModel \<Rightarrow> extracted \<Rightarrow> learnerProgress \<Rightarrow> string \<Rightarrow> position option
     \<Rightarrow> response \<times> learnerProgress" where
  "api_complete m extractedData p resourceName pos =
     (if resourceName = [] then (NameRequired, p)
      else case checkPrerequisites m resourceName (completedResources p) of
          Inl e \<Rightarrow> (Failed ''Failed to complete resource'', p)
        | Inr ok \<Rightarrow>
            if \<not> ok then
              (PrerequisitesNotMet
                 (case getProperty (prerequisites m) resourceName of Own ps \<Rightarrow> ps | _ \<Rightarrow> []), p)
            else
              (let p' = checkAchievements
                          (p\<lparr>completedResources := add (completedResources p) resourceName,
                             currentPosition := (case pos of Some q \<Rightarrow> q | None \<Rightarrow> currentPosition p),
                             score := score p + 10\<rparr>)
               in (case getAvailableResources m extractedData (completedResources p') of
                     Inl e \<Rightarrow> (Failed ''Failed to complete resource'', p')
                   | Inr available \<Rightarrow>
                       (Completed (length (completedResources p')) (totalResources p') (score p')
                          (achievements p') (take 3 available), p'))))"

text \<open>\<open>POST /api/suggest-path\<close>; an empty \<open>goal\<close> stands for a missing one.\<close>

definition api_suggest_path ::
  "dqnModel \<Rightarrow> extracted \<Rightarrow> (nat \<Rightarrow> bool) \<Rightarrow> learnerProgress \<Rightarrow> position option \<Rightarrow> string
     \<Rightarrow> response \<times> learnerProgress" where
  "api_suggest_path m extractedData coin p pos goal =
     (let currentPos = (case pos of Some q \<Rightarrow> q | None \<Rightarrow> currentPosition p);
          learningGoal = (if goal = [] then currentGoal p else goal);
          failed = (Failed ''Failed to generate path suggestion'', p)
      in case predictPath m extractedData coin currentPos (completedResources p) learningGoal of
           Inl e \<Rightarrow> failed
         | Inr suggestedPath \<Rightarrow>
             (case getNextRecommendedResource m extractedData (completedResources p) learningGoal of
                Inl e \<Rightarrow> failed
              | Inr nextResource \<Rightarrow>
                  (case getAvailableResources m extractedData (completedResources p) of
                     Inl e \<Rightarrow> failed
                   | Inr available \<Rightarrow>
                       (Suggested suggestedPath learningGoal nextResource (length available),
                        p\<lparr>pathHistory := pathHistory p @
                             [\<lparr>h_path = suggestedPath, h_fromPosition = currentPos,
                               h_goal = learningGoal\<rparr>]\<rparr>))))"

text \<open>
  \<open>POST /api/set-goal\<close>: the goal is refused when it is falsy or when
  \<open>learningPaths[goal]\<close> is; an inherited property is truthy.
\<close>

definition api_set_goal :: "dqnModel \<Rightarrow> learnerProgress \<Rightarrow> string \<Rightarrow> response \<times> learnerProgress" where
  "api_set_goal m p goal =
     (if goal = [] then (InvalidGoal (map fst (learningPaths m)), p)
      else case getProperty (learningPaths m) goal of
             Undefined \<Rightarrow> (InvalidGoal (map fst (learningPaths m)), p)
           | Own learningPath \<Rightarrow> (GoalSet goal (Some learningPath), p\<lparr>currentGoal := goal\<rparr>)
           | Inherited \<Rightarrow> (GoalSet goal None, p\<lparr>currentGoal := goal\<rparr>))"

definition api_reset_progress :: "extracted \<Rightarrow> int \<Rightarrow> learnerProgress \<Rightarrow> response \<times> learnerProgress" where
  "api_reset_progress extractedData now p = (ResetDone, freshProgress extractedData now)"

text \<open>The requests that write to \<open>learnerProgress\<close>, and a session of them.\<close>

datatype request =
    Complete string "position option"
  | SuggestPath "nat \<Rightarrow> bool" "position option" string
  | SetGoal string
  | ResetProgress int

fun handle :: "dqnModel \<Rightarrow> extracted \<Rightarrow> request \<Rightarrow> learnerProgress \<Rightarrow> response \<times> learnerProgress" where
  "handle m extractedData (Complete resourceName pos) p = api_complete m extractedData p resourceName pos"
| "handle m extractedData (SuggestPath coin pos goal) p = api_suggest_path m extractedData coin p pos goal"
| "handle m extractedData (SetGoal goal) p = api_set_goal m p goal"
| "handle m extractedData (ResetProgress now) p = api_reset_progress extractedData now p"

fun session :: "dqnModel \<Rightarrow> extracted \<Rightarrow> request list \<Rightarrow> learnerProgress \<Rightarrow> learnerProgress" where
  "session m extractedData [] p = p"
| "session m extractedData (r # rs) p = session m extractedData rs (snd (handle m extractedData r p))"

fun isReset :: "request \<Rightarrow> bool" where
  "isReset (ResetProgress now) = True"
| "isReset _ = False"

section \<open>The earlier server: MockDQNModel\<close>

record Mock_learnerProgress =
  Mock_completedResources :: "string list"
  Mock_currentPosition :: position
  Mock_totalResources :: nat
  Mock_score :: int
  Mock_pathHistory :: "historyEntry list"

definition Mock_gridSizeX :: int where
  "Mock_gridSizeX = 20"

definition Mock_gridSizeY :: int where
  "Mock_gridSizeY = 20"

definition SCALE :: int where
  "SCALE = 100"

text \<open>\<open>Math.min(...values)\<close> on a list that is not empty.\<close>

fun js_min_list :: "jsnum list \<Rightarrow> jsnum" where
  "js_min_list [] = NaN"
| "js_min_list [v] = v"
| "js_min_list (v # w # vs) = js_min v (js_min_list (w # vs))"

definition Mock_getResourcePositions :: "extracted \<Rightarrow> resource list" where
  "Mock_getResourcePositions extractedData =
     (let resources =
            map (\<lambda>(name, data).
                   \<lparr>r_name = name, r_x = floorScaled (x_coordinate data) SCALE,
                    r_y = floorScaled (y_coordinate data) SCALE\<rparr>)
                extractedData
      in if length resources > 0 then
           let minX = js_min_list (map r_x resources);
               minY = js_min_list (map r_y resources)
           in map (\<lambda>r. r\<lparr>r_x := js_sub (r_x r) minX, r_y := js_sub (r_y r) minY\<rparr>) resources
         else resources)"

text \<open>
  \<open>generatePathTo\<close>: its loop has no bound of its own, only the \<open>break\<close> on the
  length of the path; not returning is the value \<open>None\<close>.
\<close>

definition Mock_move :: "resource \<Rightarrow> position \<Rightarrow> pathStep list \<Rightarrow> position \<times> pathStep list" where
  "Mock_move target current path =
     (if js_lt (p_x current) (r_x target) then
        (current\<lparr>p_x := js_incr (p_x current)\<rparr>,
         path @ [\<lparr>s_x = js_incr (p_x current), s_y = p_y current, action = ''right'', step = None\<rparr>])
      else if js_lt (r_x target) (p_x current) then
        (current\<lparr>p_x := js_decr (p_x current)\<rparr>,
         path @ [\<lparr>s_x = js_decr (p_x current), s_y = p_y current, action = ''left'', step = None\<rparr>])
      else if js_lt (p_y current) (r_y target) then
        (current\<lparr>p_y := js_incr (p_y current)\<rparr>,
         path @ [\<lparr>s_x = p_x current, s_y = js_incr (p_y current), action = ''up'', step = None\<rparr>])
      else if js_lt (r_y target) (p_y current) then
        (current\<lparr>p_y := js_decr (p_y current)\<rparr>,
         path @ [\<lparr>s_x = p_x current, s_y = js_decr (p_y current), action = ''down'', step = None\<rparr>])
      else (current, path))"

partial_function (option) Mock_generatePathTo_loop ::
  "resource \<Rightarrow> position \<Rightarrow> pathStep list \<Rightarrow> pathStep list option" where
  "Mock_generatePathTo_loop target current path =
     (if js_neq (p_x current) (r_x target) \<or> js_neq (p_y current) (r_y target) then
        (if length (snd (Mock_move target current path)) > 50
         then Some (snd (Mock_move target current path))
         else Mock_generatePathTo_loop target (fst (Mock_move target current path))
                (snd (Mock_move target current path)))
      else Some path)"

declare Mock_generatePathTo_loop.simps [code]

definition Mock_generatePathTo :: "position \<Rightarrow> resource \<Rightarrow> pathStep list option" where
  "Mock_generatePathTo start target = Mock_generatePathTo_loop target start []"

text \<open>
  \<open>POST /api/complete\<close> of the earlier server: no prerequisite check. Its answer
  has no achievements and no \<open>nextAvailable\<close>; the two lists of \<open>Completed\<close>
  are empty.
\<close>

definition Mock_api_complete ::
  "Mock_learnerProgress \<Rightarrow> string \<Rightarrow> position option \<Rightarrow> response \<times> Mock_learnerProgress" where
  "Mock_api_complete p resourceName pos =
     (if resourceName = [] then (NameRequired, p)
      else
        let p' = p\<lparr>Mock_completedResources := add (Mock_completedResources p) resourceName,
                   Mock_currentPosition := (case pos of Some q \<Rightarrow> q | None \<Rightarrow> Mock_currentPosition p),
                   Mock_score := Mock_score p + 10\<rparr>
        in (Completed (length (Mock_completedResources p')) (Mock_totalResources p') (Mock_score p')
              [] [], p'))"

definition Mock_api_reset_progress ::
  "extracted \<Rightarrow> Mock_learnerProgress \<Rightarrow> response \<times> Mock_learnerProgress" where
  "Mock_api_reset_progress extractedData p =
     (ResetDone,
      \<lparr>Mock_completedResources = [],
       Mock_currentPosition = \<lparr>p_x = Num 0, p_y = Num 0\<rparr>,
       Mock_totalResources = length extractedData,
       Mock_score = 0,
       Mock_pathHistory = []\<rparr>)"

section \<open>The specification's vocabulary\<close>

text \<open>
  The definitions of this section follow the words of the specification, not the code;
  the theorems below compare the code with them.
\<close>

text \<open>The prerequisite list of a resource: empty for a name the map does not hold.\<close>

definition prerequisitesOf :: "dqnModel \<Rightarrow> string \<Rightarrow> string list" where
  "prerequisitesOf m resourceName =
     (case map_of (prerequisites m) resourceName of Some ps \<Rightarrow> ps | None \<Rightarrow> [])"

text \<open>\<open>isAvailable\<close>: every prerequisite of the resource is in the completed set.\<close>

definition isAvailable :: "dqnModel \<Rightarrow> string \<Rightarrow> string list \<Rightarrow> bool" where
  "isAvailable m resourceName completed =
     list_all (\<lambda>q. q \<in> set completed) (prerequisitesOf m resourceName)"

text \<open>The prerequisites of a resource that are missing from the completed set.\<close>

definition missingPrerequisites :: "dqnModel \<Rightarrow> string \<Rightarrow> string list \<Rightarrow> string list" where
  "missingPrerequisites m resourceName completed =
     filter (\<lambda>q. q \<notin> set completed) (prerequisitesOf m resourceName)"

text \<open>
  \<open>recommendNext\<close>: the first resource of the goal's learning path (the default
  goal's, for a goal that is not known) that is not completed and is available; failing
  that, the first such resource of the catalog; failing that, none.
\<close>

definition recommendNext :: "dqnModel \<Rightarrow> string list \<Rightarrow> string list \<Rightarrow> string \<Rightarrow> string option" where
  "recommendNext m catalog completed goal =
     (let learningPath =
            (case map_of (learningPaths m) goal of
               Some path \<Rightarrow> path
             | None \<Rightarrow> (case map_of (learningPaths m) ''complete_course'' of
                          Some path \<Rightarrow> path | None \<Rightarrow> []));
          candidate = (\<lambda>r. r \<notin> set completed \<and> isAvailable m r completed)
      in case find candidate learningPath of
           Some r \<Rightarrow> Some r
         | None \<Rightarrow> find candidate catalog)"

text \<open>The achievement thresholds and their names.\<close>

definition thresholds :: "(nat \<times> string) list" where
  "thresholds =
     [(1, ''First Steps''), (5, ''Getting Started''), (10, ''Making Progress''),
      (20, ''Dedicated Learner''), (50, ''Expert'')]"

text \<open>
  The names unlocked at a completed count, and the state in which every one of them is
  in the achievement list once and nothing else is.
\<close>

definition unlockedAt :: "nat \<Rightarrow> string set" where
  "unlockedAt n = {name. \<exists>t. (t, name) \<in> set thresholds \<and> t \<le> n}"

definition unlockedOnce :: "learnerProgress \<Rightarrow> bool" where
  "unlockedOnce p =
     (distinct (achievements p) \<and>
      set (achievements p) = unlockedAt (length (completedResources p)))"

text \<open>
  A path as a walk on the grid: the cell it ends in (the start, for an empty path), and
  whether each step moves by one along a single axis, an axis on which the cell before
  the step still differs from the target.
\<close>

definition finalCell :: "jsnum \<times> jsnum \<Rightarrow> pathStep list \<Rightarrow> jsnum \<times> jsnum" where
  "finalCell start path = (if path = [] then start else (s_x (last path), s_y (last path)))"

definition towards :: "resource \<Rightarrow> jsnum \<times> jsnum \<Rightarrow> pathStep \<Rightarrow> bool" where
  "towards target c s =
     ((s_y s = snd c \<and> js_neq (fst c) (r_x target) \<and>
         (s_x s = js_incr (fst c) \<or> s_x s = js_decr (fst c)))
      \<or> (s_x s = fst c \<and> js_neq (snd c) (r_y target) \<and>
         (s_y s = js_incr (snd c) \<or> s_y s = js_decr (snd c))))"

fun unitMoves :: "resource \<Rightarrow> jsnum \<times> jsnum \<Rightarrow> pathStep list \<Rightarrow> bool" where
  "unitMoves target c [] = True"
| "unitMoves target c (s # ss) = (towards target c s \<and> unitMoves target (s_x s, s_y s) ss)"

text \<open>A coordinate that is an integer of the closed range from \<open>lo\<close> to \<open>hi\<close>.\<close>

fun inRange :: "int \<Rightarrow> int \<Rightarrow> jsnum \<Rightarrow> bool" where
  "inRange lo hi (Num v) = (lo \<le> v \<and> v \<le> hi)"
| "inRange lo hi NaN = False"

text \<open>The catalog and the prerequisite graph of the specification's example.\<close>

definition exampleModel :: dqnModel where
  "exampleModel =
     \<lparr>gridSizeX = 20, gridSizeY = 20, prerequisites = [(''B'', [''A''])],
      learningPaths = [(''complete_course'', [''A'', ''B''])]\<rparr>"

definition exampleData :: extracted where
  "exampleData =
     [(''A'', \<lparr>x_coordinate = Finite 0, y_coordinate = Finite 0\<rparr>),
      (''B'', \<lparr>x_coordinate = Finite (1 / 20), y_coordinate = Finite (1 / 20)\<rparr>)]"

section \<open>Resetting the progress\<close>

lemma session_append:
  "session m d (rs @ rs') p = session m d rs' (session m d rs p)"
  by (induction rs arbitrary: p) auto

text \<open>
  Claim C7. After \<open>resetProgress\<close>, whatever the requests served before and whatever
  the state they left, the progress is a fresh instance: no completed resource, score 0,
  position at the origin, empty path history, the default goal and no achievement. The
  earlier server keeps no goal and no achievement list; its reset empties the four
  fields it has.
\<close>

theorem reset_gives_fresh_progress:
  "completedResources (session m d (rs @ [ResetProgress now]) p) = [] \<and>
   score (session m d (rs @ [ResetProgress now]) p) = 0 \<and>
   currentPosition (session m d (rs @ [ResetProgress now]) p) = \<lparr>p_x = Num 0, p_y = Num 0\<rparr> \<and>
   pathHistory (session m d (rs @ [ResetProgress now]) p) = [] \<and>
   currentGoal (session m d (rs @ [ResetProgress now]) p) = ''complete_course'' \<and>
   achievements (session m d (rs @ [ResetProgress now]) p) = [] \<and>
   Mock_completedResources (snd (Mock_api_reset_progress d q)) = [] \<and>
   Mock_score (snd (Mock_api_reset_progress d q)) = 0 \<and>
   Mock_currentPosition (snd (Mock_api_reset_progress d q)) = \<lparr>p_x = Num 0, p_y = Num 0\<rparr> \<and>
   Mock_pathHistory (snd (Mock_api_reset_progress d q)) = []"
  by (simp add: session_append api_reset_progress_def freshProgress_def
        Mock_api_reset_progress_def)

section \<open>Completing a resource whose prerequisites are missing\<close>

text \<open>
  Claim C1, as the code has it. When some prerequisite of a resource (with a name that
  is not empty) is missing from the completed set, \<open>POST /api/complete\<close> rejects
  the request and leaves the whole progress, the completed set with it, as it was. The
  rejection carries the full prerequisite list of the resource: every missing
  prerequisite is in it, and so is every prerequisite that is already completed.
\<close>

theorem complete_rejected_with_prerequisites:
  assumes "resourceName \<noteq> []"
      and "map_of (prerequisites m) resourceName = Some prereqs"
      and "\<exists>q \<in> set prereqs. q \<notin> set (completedResources p)"
  shows "api_complete m extractedData p resourceName pos = (PrerequisitesNotMet prereqs, p)
         \<and> missingPrerequisites m resourceName (completedResources p) \<noteq> []
         \<and> set (missingPrerequisites m resourceName (completedResources p)) \<subseteq> set prereqs"
  using assms
  by (auto simp: api_complete_def checkPrerequisites_def getProperty_def has_def
        missingPrerequisites_def prerequisitesOf_def list_all_iff filter_empty_conv)

text \<open>
  The example of the specification: B requires A, nothing is completed; completing B is
  rejected with the list [A] and the completed set stays empty.
\<close>

theorem complete_rejected_with_prerequisites_witness:
  "api_complete exampleModel exampleData (freshProgress exampleData 0) ''B'' None
     = (PrerequisitesNotMet [''A''], freshProgress exampleData 0)
   \<and> missingPrerequisites exampleModel ''B'' (completedResources (freshProgress exampleData 0)) = [''A'']
   \<and> completedResources (freshProgress exampleData 0) = []"
proof -
  have name: "''B'' \<noteq> []" by simp
  have listed: "map_of (prerequisites exampleModel) ''B'' = Some [''A'']"
    by (simp add: exampleModel_def)
  have missing: "\<exists>q \<in> set [''A'']. q \<notin> set (completedResources (freshProgress exampleData 0))"
    by (simp add: freshProgress_def)
  show ?thesis
    using complete_rejected_with_prerequisites [OF name listed missing, of exampleData None]
    by (simp add: freshProgress_def missingPrerequisites_def prerequisitesOf_def exampleModel_def)
qed

text \<open>
  The claim as it is written fails: with ``Introduction to Mathematical Logic''
  completed, ``Rules of Inference'' misses one prerequisite only, and the rejection
  names two.
\<close>

theorem rejection_names_more_than_missing:
  "fst (api_complete EnhancedDQNModel []
          ((freshProgress [] 0)\<lparr>completedResources := [''Introduction to Mathematical Logic'']\<rparr>)
          ''Rules of Inference'' None)
     = PrerequisitesNotMet [''Introduction to Mathematical Logic'', ''Logical Equivalence'']
   \<and> missingPrerequisites EnhancedDQNModel ''Rules of Inference''
         [''Introduction to Mathematical Logic''] = [''Logical Equivalence'']"
  by (simp add: api_complete_def checkPrerequisites_def getProperty_def EnhancedDQNModel_def
       loadPrerequisites_def freshProgress_def has_def missingPrerequisites_def
       prerequisitesOf_def)

section \<open>Availability\<close>

text \<open>
  On every name whose lookup in the prerequisite map does not land on an inherited
  property, \<open>checkPrerequisites\<close> is the specification's \<open>isAvailable\<close>; on the
  other names it raises.
\<close>

lemma checkPrerequisites_isAvailable:
  "getProperty (prerequisites m) resourceName \<noteq> Inherited \<Longrightarrow>
   checkPrerequisites m resourceName completed = Inr (isAvailable m resourceName completed)"
  by (auto simp: checkPrerequisites_def getProperty_def isAvailable_def prerequisitesOf_def
        has_def list_all_iff split: option.splits if_splits)

lemma checkPrerequisites_inherited:
  "getProperty (prerequisites m) resourceName = Inherited \<Longrightarrow>
   checkPrerequisites m resourceName completed = Inl TypeError"
  by (simp add: checkPrerequisites_def)

lemma isAvailable_without_prerequisites:
  "map_of (prerequisites m) resourceName = None \<Longrightarrow> isAvailable m resourceName completed"
  by (simp add: isAvailable_def prerequisitesOf_def)

text \<open>
  Claim C3 says that a name absent from the prerequisite map is always available. The
  name ``constructor'' is absent from the map, and for it the code does not answer true:
  \<open>this.prerequisites["constructor"]\<close> is the function inherited from
  \<open>Object.prototype\<close>, the \<open>|| []\<close> keeps it, and the call of \<open>every\<close>
  on it raises a \<open>TypeError\<close>, whatever the completed set.
\<close>

theorem checkPrerequisites_raises_on_constructor:
  "checkPrerequisites EnhancedDQNModel ''constructor'' completed = Inl TypeError"
  by (simp add: checkPrerequisites_def getProperty_def EnhancedDQNModel_def
        loadPrerequisites_def objectPrototypeKeys_def)

section \<open>The next recommended resource\<close>

text \<open>
  Where no lookup lands on an inherited property (the goal in the learning paths, the
  names of the learning paths and of the catalog in the prerequisite map),
  \<open>getNextRecommendedResource\<close> is the specification's \<open>recommendNext\<close> over the
  names of the catalog in their order.
\<close>

lemma scanLearningPath_find:
  "list_all (\<lambda>r. getProperty (prerequisites m) r \<noteq> Inherited) path \<Longrightarrow>
   scanLearningPath m completed path
     = Inr (find (\<lambda>r. r \<notin> set completed \<and> isAvailable m r completed) path)"
  by (induction path) (auto simp: checkPrerequisites_isAvailable has_def)

lemma filterAvailable_filter:
  "list_all (\<lambda>r. getProperty (prerequisites m) (r_name r) \<noteq> Inherited) rs \<Longrightarrow>
   filterAvailable m completed rs
     = Inr (filter (\<lambda>r. r_name r \<notin> set completed \<and> isAvailable m (r_name r) completed) rs)"
  by (induction rs) (auto simp: checkPrerequisites_isAvailable has_def)

lemma names_getResourcePositions:
  "map r_name (getResourcePositions m extractedData) = map fst extractedData"
  by (auto simp: getResourcePositions_def Let_def split: prod.splits)

lemma find_names:
  "find P (map r_name rs) = (case filter (\<lambda>r. P (r_name r)) rs of [] \<Rightarrow> None | a # _ \<Rightarrow> Some (r_name a))"
  by (induction rs) auto

lemma getNextRecommendedResource_recommendNext:
  assumes "getProperty (learningPaths m) goal \<noteq> Inherited"
      and "map_of (learningPaths m) ''complete_course'' = Some defaultPath"
      and "list_all (\<lambda>(g, path). list_all (\<lambda>r. getProperty (prerequisites m) r \<noteq> Inherited) path)
             (learningPaths m)"
      and "list_all (\<lambda>r. getProperty (prerequisites m) r \<noteq> Inherited) (map fst extractedData)"
  shows "getNextRecommendedResource m extractedData completed goal
           = Inr (recommendNext m (map fst extractedData) completed goal)"
proof -
  let ?safe = "list_all (\<lambda>r. getProperty (prerequisites m) r \<noteq> Inherited)"
  let ?cand = "\<lambda>r. r \<notin> set completed \<and> isAvailable m r completed"
  have paths: "?safe path" if "map_of (learningPaths m) g = Some path" for g path
    using assms(3) map_of_SomeD [OF that] by (auto simp: list_all_iff)
  have cat: "list_all (\<lambda>r. getProperty (prerequisites m) (r_name r) \<noteq> Inherited)
               (getResourcePositions m extractedData)"
    using assms(4) names_getResourcePositions [of m extractedData, symmetric]
    by (simp add: list_all_iff)
  have avail: "getAvailableResources m extractedData completed
          = Inr (filter (\<lambda>r. ?cand (r_name r)) (getResourcePositions m extractedData))"
    unfolding getAvailableResources_def by (rule filterAvailable_filter [OF cat])
  have fallback: "find ?cand (map fst extractedData)
          = (case filter (\<lambda>r. ?cand (r_name r)) (getResourcePositions m extractedData) of
               [] \<Rightarrow> None | a # _ \<Rightarrow> Some (r_name a))"
    using find_names [of ?cand "getResourcePositions m extractedData"]
    by (simp add: names_getResourcePositions)
  obtain path where path:
    "(case getProperty (learningPaths m) goal of
        Undefined \<Rightarrow> getProperty (learningPaths m) ''complete_course'' | found \<Rightarrow> found) = Own path"
    "(case map_of (learningPaths m) goal of Some path \<Rightarrow> path
      | None \<Rightarrow> (case map_of (learningPaths m) ''complete_course'' of Some path \<Rightarrow> path | None \<Rightarrow> [])) = path"
    "?safe path"
    using assms(1,2) paths
    by (cases "map_of (learningPaths m) goal") (auto simp: getProperty_def split: if_splits)
  show ?thesis
    unfolding getNextRecommendedResource_def recommendNext_def Let_def path(1) path(2)
    by (simp add: scanLearningPath_find [OF path(3)] avail fallback
          split: option.splits list.splits)
qed

text \<open>
  Claim C2 says that a goal that is not recognised falls back to the default goal's
  path. The goal ``constructor'' names no learning path, and for it the code does not
  fall back: \<open>this.learningPaths["constructor"]\<close> is the inherited function, it is
  truthy, and \<open>for ... of\<close> over it raises a \<open>TypeError\<close>, whatever the catalog
  and the completed set.
\<close>

theorem getNextRecommendedResource_raises_on_constructor:
  "getNextRecommendedResource EnhancedDQNModel extractedData completed ''constructor''
     = Inl TypeError"
  by (simp add: getNextRecommendedResource_def getProperty_def EnhancedDQNModel_def
        loadLearningPaths_def objectPrototypeKeys_def)

section \<open>Completing a resource\<close>

lemma completedResources_checkAchievements [simp]:
  "completedResources (checkAchievements p) = completedResources p"
  "score (checkAchievements p) = score p"
  "totalResources (checkAchievements p) = totalResources p"
  by (simp_all add: checkAchievements_def Let_def)

lemma has_add: "has (add c r) r"
  by (simp add: add_def has_def)

lemma add_member: "has c r \<Longrightarrow> add c r = c"
  by (simp add: add_def)

lemma set_add: "set (add c r) = insert r (set c)"
  by (auto simp: add_def has_def)

lemma checkPrerequisites_add:
  "checkPrerequisites m r c = Inr True \<Longrightarrow> checkPrerequisites m r (add c q) = Inr True"
  by (auto simp: checkPrerequisites_def list_all_iff has_def set_add split: property.splits)

lemma api_complete_success:
  assumes "api_complete m d p r pos = (Completed n t sc ach nxt, p')"
  shows "r \<noteq> []"
    and "checkPrerequisites m r (completedResources p) = Inr True"
    and "p' = checkAchievements
                (p\<lparr>completedResources := add (completedResources p) r,
                   currentPosition := (case pos of Some q \<Rightarrow> q | None \<Rightarrow> currentPosition p),
                   score := score p + 10\<rparr>)"
    and "\<exists>available. getAvailableResources m d (add (completedResources p) r) = Inr available"
  using assms
  by (auto simp: api_complete_def Let_def split: if_splits sum.splits)

text \<open>
  Claim C6. A successful \<open>POST /api/complete\<close> adds the resource to the completed
  set and raises the score by exactly 10. The same request again succeeds again, leaves
  the completed set as it is and raises the score by 10 once more. The earlier server,
  which accepts every name that is not empty, does the same.
\<close>

theorem completion_adds_and_scores:
  assumes "api_complete m d p r pos = (Completed n t sc ach nxt, p')"
  shows "set (completedResources p') = insert r (set (completedResources p))
       \<and> score p' = score p + 10
       \<and> (\<exists>n' t' sc' ach' nxt' p''.
             api_complete m d p' r pos' = (Completed n' t' sc' ach' nxt', p'')
             \<and> completedResources p'' = completedResources p' \<and> score p'' = score p' + 10)
       \<and> (\<exists>k t'. fst (Mock_api_complete q r pos) = Completed k t' (Mock_score q + 10) [] [])
       \<and> set (Mock_completedResources (snd (Mock_api_complete q r pos)))
            = insert r (set (Mock_completedResources q))
       \<and> Mock_score (snd (Mock_api_complete q r pos)) = Mock_score q + 10
       \<and> Mock_completedResources (snd (Mock_api_complete (snd (Mock_api_complete q r pos)) r pos'))
            = Mock_completedResources (snd (Mock_api_complete q r pos))
       \<and> Mock_score (snd (Mock_api_complete (snd (Mock_api_complete q r pos)) r pos'))
            = Mock_score (snd (Mock_api_complete q r pos)) + 10"
proof -
  note s = api_complete_success [OF assms]
  have c': "completedResources p' = add (completedResources p) r" and sc': "score p' = score p + 10"
    using s(3) by simp_all
  have again: "checkPrerequisites m r (completedResources p') = Inr True"
    using s(2) c' by (simp add: checkPrerequisites_add)
  have same: "add (completedResources p') r = completedResources p'"
    using c' by (simp add: add_member has_add)
  obtain available where av: "getAvailableResources m d (completedResources p') = Inr available"
    using s(4) c' by auto
  have second: "\<exists>n' t' sc' ach' nxt' p''.
             api_complete m d p' r pos' = (Completed n' t' sc' ach' nxt', p'')
             \<and> completedResources p'' = completedResources p' \<and> score p'' = score p' + 10"
    using s(1) again same av by (simp add: api_complete_def Let_def)
  have mock: "(\<exists>k t'. fst (Mock_api_complete q r pos) = Completed k t' (Mock_score q + 10) [] [])
       \<and> set (Mock_completedResources (snd (Mock_api_complete q r pos)))
            = insert r (set (Mock_completedResources q))
       \<and> Mock_score (snd (Mock_api_complete q r pos)) = Mock_score q + 10
       \<and> Mock_completedResources (snd (Mock_api_complete (snd (Mock_api_complete q r pos)) r pos'))
            = Mock_completedResources (snd (Mock_api_complete q r pos))
       \<and> Mock_score (snd (Mock_api_complete (snd (Mock_api_complete q r pos)) r pos'))
            = Mock_score (snd (Mock_api_complete q r pos)) + 10"
    using s(1) by (simp add: Mock_api_complete_def Let_def set_add add_member has_add)
  show ?thesis using c' sc' second mock by (simp add: set_add)
qed

theorem completion_adds_and_scores_witness:
  "api_complete exampleModel exampleData (freshProgress exampleData 0) ''A'' None
     = (Completed 1 2 10 [''First Steps''] [\<lparr>r_name = ''B'', r_x = Num 1, r_y = Num 1\<rparr>],
        (freshProgress exampleData 0)\<lparr>completedResources := [''A''], score := 10,
             achievements := [''First Steps'']\<rparr>)
   \<and> (\<exists>n' t' sc' ach' nxt' p''.
         api_complete exampleModel exampleData
           ((freshProgress exampleData 0)\<lparr>completedResources := [''A''], score := 10,
               achievements := [''First Steps'']\<rparr>) ''A'' None
          = (Completed n' t' sc' ach' nxt', p'')
         \<and> completedResources p'' = [''A''] \<and> score p'' = 20)"
proof -
  have first: "api_complete exampleModel exampleData (freshProgress exampleData 0) ''A'' None
     = (Completed 1 2 10 [''First Steps''] [\<lparr>r_name = ''B'', r_x = Num 1, r_y = Num 1\<rparr>],
        (freshProgress exampleData 0)\<lparr>completedResources := [''A''], score := 10,
             achievements := [''First Steps'']\<rparr>)"
    by (simp add: api_complete_def checkPrerequisites_def getProperty_def exampleModel_def
          exampleData_def freshProgress_def objectPrototypeKeys_def add_def has_def
          checkAchievements_def unlock_def getAvailableResources_def getResourcePositions_def
          Let_def)
  show ?thesis
    using first completion_adds_and_scores [OF first, of None]
    by simp
qed

text \<open>
  A name that is not empty and on which the lookup in the prerequisite map finds
  nothing, own or inherited, is added and scored; whether it is in the catalog is never
  asked, so the completed set can grow past the catalog.
\<close>

lemma complete_accepts_unlisted_name:
  assumes "resourceName \<noteq> []"
      and "getProperty (prerequisites m) resourceName = Undefined"
  shows "completedResources (snd (api_complete m d p resourceName pos))
           = add (completedResources p) resourceName
       \<and> score (snd (api_complete m d p resourceName pos)) = score p + 10"
  using assms
  by (simp add: api_complete_def checkPrerequisites_def Let_def split: sum.splits)

lemma completed_can_exceed_catalog:
  "length (completedResources
      (session exampleModel exampleData [Complete ''A'' None, Complete ''X'' None, Complete ''Y'' None]
         (freshProgress exampleData 0))) = 3
   \<and> totalResources
      (session exampleModel exampleData [Complete ''A'' None, Complete ''X'' None, Complete ''Y'' None]
         (freshProgress exampleData 0)) = 2"
  by (simp add: api_complete_def checkPrerequisites_def getProperty_def exampleModel_def
        exampleData_def freshProgress_def objectPrototypeKeys_def add_def has_def
        getAvailableResources_def getResourcePositions_def Let_def split: sum.splits)

text \<open>
  Claim C10 says that every name that is not empty and is absent from the catalog and
  from the prerequisite map is accepted. The name ``constructor'' is absent from both,
  and it is not accepted: the prerequisite check raises, the handler answers with status
  500, and the progress is left as it was.
\<close>

theorem complete_fails_on_constructor:
  "api_complete EnhancedDQNModel extractedData p ''constructor'' pos
     = (Failed ''Failed to complete resource'', p)"
  by (simp add: api_complete_def checkPrerequisites_def getProperty_def EnhancedDQNModel_def
        loadPrerequisites_def objectPrototypeKeys_def)

section \<open>Achievements\<close>

lemma unlockedAt_mono: "n \<le> n' \<Longrightarrow> unlockedAt n \<subseteq> unlockedAt n'"
  by (auto simp: unlockedAt_def)

lemma unlocked_names:
  "{name. \<exists>t. (t, name) \<in> set [(t1, a), (t2, b), (t3, c), (t4, d), (t5, e)] \<and> t \<le> n}
     = {x. (x = a \<and> t1 \<le> n) \<or> (x = b \<and> t2 \<le> n) \<or> (x = c \<and> t3 \<le> n) \<or>
           (x = d \<and> t4 \<le> (n::nat)) \<or> (x = e \<and> t5 \<le> n)}"
  by auto

lemma unlockedAt_names:
  "unlockedAt n =
     {name. (name = ''First Steps'' \<and> 1 \<le> n) \<or> (name = ''Getting Started'' \<and> 5 \<le> n) \<or>
            (name = ''Making Progress'' \<and> 10 \<le> n) \<or> (name = ''Dedicated Learner'' \<and> 20 \<le> n) \<or>
            (name = ''Expert'' \<and> 50 \<le> n)}"
  unfolding unlockedAt_def thresholds_def by (rule unlocked_names)

lemma set_unlocks:
  "set (u @ unlock n u t1 a @ unlock n u t2 b @ unlock n u t3 c @ unlock n u t4 d @ unlock n u t5 e)
     = set u \<union> {x. (x = a \<and> t1 \<le> n) \<or> (x = b \<and> t2 \<le> n) \<or> (x = c \<and> t3 \<le> n) \<or>
                    (x = d \<and> t4 \<le> n) \<or> (x = e \<and> t5 \<le> n)}"
  by (auto simp: unlock_def)

lemma distinct_unlocks:
  "distinct [a, b, c, d, e] \<Longrightarrow> distinct u \<Longrightarrow>
   distinct (u @ unlock n u t1 a @ unlock n u t2 b @ unlock n u t3 c @ unlock n u t4 d
               @ unlock n u t5 e)"
  by (auto simp: unlock_def)

lemma achievement_names_distinct:
  "distinct [''First Steps'', ''Getting Started'', ''Making Progress'', ''Dedicated Learner'',
             ''Expert'']"
  by simp

lemma achievements_checkAchievements:
  "achievements (checkAchievements p)
     = achievements p
       @ unlock (length (completedResources p)) (achievements p) 1 ''First Steps''
       @ unlock (length (completedResources p)) (achievements p) 5 ''Getting Started''
       @ unlock (length (completedResources p)) (achievements p) 10 ''Making Progress''
       @ unlock (length (completedResources p)) (achievements p) 20 ''Dedicated Learner''
       @ unlock (length (completedResources p)) (achievements p) 50 ''Expert''"
  by (simp add: checkAchievements_def Let_def)

lemma set_checkAchievements:
  "set (achievements (checkAchievements p))
     = set (achievements p) \<union> unlockedAt (length (completedResources p))"
  by (simp only: achievements_checkAchievements set_unlocks unlockedAt_names)

lemma distinct_checkAchievements:
  "distinct (achievements p) \<Longrightarrow> distinct (achievements (checkAchievements p))"
  unfolding achievements_checkAchievements
  by (rule distinct_unlocks [OF achievement_names_distinct])

lemma prefix_checkAchievements:
  "prefix (achievements p) (achievements (checkAchievements p))"
  unfolding achievements_checkAchievements by (rule prefixI) (rule refl)

lemma length_add: "length c \<le> length (add c r)"
  by (simp add: add_def)

lemma api_complete_cases:
  "snd (api_complete m d p r pos) = p \<or>
   snd (api_complete m d p r pos)
     = checkAchievements
         (p\<lparr>completedResources := add (completedResources p) r,
            currentPosition := (case pos of Some q \<Rightarrow> q | None \<Rightarrow> currentPosition p),
            score := score p + 10\<rparr>)"
  by (simp add: api_complete_def Let_def split: sum.splits)

lemma achievements_other_routes [simp]:
  "achievements (snd (api_suggest_path m d coin p pos goal)) = achievements p"
  "completedResources (snd (api_suggest_path m d coin p pos goal)) = completedResources p"
  "achievements (snd (api_set_goal m p goal)) = achievements p"
  "completedResources (snd (api_set_goal m p goal)) = completedResources p"
  by (simp_all add: api_suggest_path_def api_set_goal_def Let_def
        split: sum.splits property.splits)

lemma unlockedOnce_handle:
  assumes "unlockedOnce p"
  shows "unlockedOnce (snd (handle m d r p))"
proof (cases r)
  case (Complete name pos)
  let ?q = "p\<lparr>completedResources := add (completedResources p) name,
            currentPosition := (case pos of Some q \<Rightarrow> q | None \<Rightarrow> currentPosition p),
            score := score p + 10\<rparr>"
  have "unlockedOnce (checkAchievements ?q)"
    using assms unlockedAt_mono [OF length_add, of "completedResources p" name]
    by (auto simp: unlockedOnce_def set_checkAchievements distinct_checkAchievements)
  then show ?thesis
    using assms api_complete_cases [of m d p name pos] Complete by auto
next
  case (SuggestPath coin pos goal)
  then show ?thesis using assms by (simp add: unlockedOnce_def)
next
  case (SetGoal goal)
  then show ?thesis using assms by (simp add: unlockedOnce_def)
next
  case (ResetProgress now)
  then show ?thesis
    by (simp add: unlockedOnce_def api_reset_progress_def freshProgress_def unlockedAt_names)
qed

lemma unlockedOnce_session:
  "unlockedOnce p \<Longrightarrow> unlockedOnce (session m d rs p)"
  by (induction rs arbitrary: p) (auto simp: unlockedOnce_handle)

lemma unlockedOnce_fresh: "unlockedOnce (freshProgress d now)"
  by (simp add: unlockedOnce_def freshProgress_def unlockedAt_names)

lemma prefix_handle:
  "\<not> isReset r \<Longrightarrow> prefix (achievements p) (achievements (snd (handle m d r p)))"
proof (cases r)
  case (Complete name pos)
  then show ?thesis
    using api_complete_cases [of m d p name pos]
      prefix_checkAchievements [of "p\<lparr>completedResources := add (completedResources p) name,
            currentPosition := (case pos of Some q \<Rightarrow> q | None \<Rightarrow> currentPosition p),
            score := score p + 10\<rparr>"]
    by auto
qed simp_all

lemma prefix_session:
  "list_all (\<lambda>r. \<not> isReset r) rs \<Longrightarrow> prefix (achievements p) (achievements (session m d rs p))"
proof (induction rs arbitrary: p)
  case Nil
  then show ?case by simp
next
  case (Cons r rs)
  have "prefix (achievements p) (achievements (snd (handle m d r p)))"
    using Cons.prems by (simp add: prefix_handle)
  moreover have "prefix (achievements (snd (handle m d r p)))
                   (achievements (session m d rs (snd (handle m d r p))))"
    using Cons.prems by (intro Cons.IH) simp
  ultimately show ?case by (auto intro: prefix_order.trans)
qed

lemma unlockedOnce_thresholds:
  "unlockedOnce p \<Longrightarrow>
   list_all (\<lambda>(t, name). (name \<in> set (achievements p)) = (t \<le> length (completedResources p)))
     thresholds"
  by (simp add: unlockedOnce_def unlockedAt_names thresholds_def)

text \<open>
  Claim C8. In the state reached from a fresh progress by any sequence of requests, the
  achievement list has no duplicate, and each of the five achievements is in it exactly
  when the completed count has reached its threshold (1, 5, 10, 20, 50). Along any
  sequence of requests without a reset, from any state, the achievement list only grows
  at its end: nothing unlocked is removed.
\<close>

theorem achievements_unlocked_once:
  "distinct (achievements (session m d rs (freshProgress d now)))
   \<and> list_all (\<lambda>(t, name).
         (name \<in> set (achievements (session m d rs (freshProgress d now))))
           = (t \<le> length (completedResources (session m d rs (freshProgress d now)))))
       thresholds
   \<and> (list_all (\<lambda>r. \<not> isReset r) rs' \<longrightarrow>
         prefix (achievements p) (achievements (session m d rs' p)))"
proof -
  have once: "unlockedOnce (session m d rs (freshProgress d now))"
    by (rule unlockedOnce_session [OF unlockedOnce_fresh])
  show ?thesis
    using once unlockedOnce_thresholds [OF once]
    by (simp add: prefix_session unlockedOnce_def)
qed


theorem achievements_unlocked_once_witness:
  "list_all (\<lambda>r. \<not> isReset r) [Complete ''X'' None, SetGoal ''complete_course'']
   \<and> prefix (achievements (freshProgress exampleData 0))
        (achievements (session exampleModel exampleData
            [Complete ''X'' None, SetGoal ''complete_course''] (freshProgress exampleData 0)))
   \<and> achievements (session exampleModel exampleData
         [Complete ''A'' None, Complete ''B'' None, Complete ''X'' None, Complete ''Y'' None,
          Complete ''Z'' None, Complete ''Z'' None] (freshProgress exampleData 0))
       = [''First Steps'', ''Getting Started'']
   \<and> distinct (achievements (session exampleModel exampleData
         [Complete ''A'' None, Complete ''B'' None, Complete ''X'' None, Complete ''Y'' None,
          Complete ''Z'' None, Complete ''Z'' None] (freshProgress exampleData 0)))"
proof -
  have noReset: "list_all (\<lambda>r. \<not> isReset r) [Complete ''X'' None, SetGoal ''complete_course'']"
    by simp
  have five: "achievements (session exampleModel exampleData
         [Complete ''A'' None, Complete ''B'' None, Complete ''X'' None, Complete ''Y'' None,
          Complete ''Z'' None, Complete ''Z'' None] (freshProgress exampleData 0))
       = [''First Steps'', ''Getting Started'']"
    by (simp add: api_complete_def checkPrerequisites_def getProperty_def exampleModel_def
          exampleData_def freshProgress_def objectPrototypeKeys_def add_def has_def
          checkAchievements_def unlock_def getAvailableResources_def getResourcePositions_def
          Let_def)
  show ?thesis
    using noReset five
      achievements_unlocked_once [of exampleModel exampleData
            "[Complete ''A'' None, Complete ''B'' None, Complete ''X'' None, Complete ''Y'' None,
              Complete ''Z'' None, Complete ''Z'' None]" 0
            "[Complete ''X'' None, SetGoal ''complete_course'']" "freshProgress exampleData 0"]
    by simp
qed

section \<open>Paths on the grid\<close>

text \<open>Within the magnitude \<open>2 ^ 53\<close> the two steps are exact.\<close>

lemma toDouble_exact: "- safeBound \<le> n \<Longrightarrow> n \<le> safeBound \<Longrightarrow> toDouble n = n"
  by (simp add: toDouble_def abs_le_iff)

lemma js_incr_exact: "- safeBound \<le> a \<Longrightarrow> a < safeBound \<Longrightarrow> js_incr (Num a) = Num (a + 1)"
  by (simp add: toDouble_exact)

lemma js_decr_exact: "- safeBound < a \<Longrightarrow> a \<le> safeBound \<Longrightarrow> js_decr (Num a) = Num (a - 1)"
  by (simp add: toDouble_exact)

subsection \<open>The loop of the enhanced server\<close>

text \<open>
  Each round of the loop either ends it or takes one more step and appends one path
  step, so the path never has more than \<open>maxSteps\<close> steps, whatever the positions
  and the random choices are. Towards a target that is not to the left of or below the
  current cell and lies in the grid, with coordinates within the magnitude
  \<open>2 ^ 53\<close>, it arrives when the steps suffice.
\<close>

lemma generateDQNPath_loop_unfold:
  "generateDQNPath_loop m coin target current steps path = path \<or>
   (steps < maxSteps \<and>
    (\<exists>current' s. generateDQNPath_loop m coin target current steps path
                   = generateDQNPath_loop m coin target current' (steps + 1) (path @ [s])))"
proof -
  have eq: "generateDQNPath_loop m coin target current steps path =
     (if steps < maxSteps \<and> (js_neq (p_x current) (r_x target) \<or> js_neq (p_y current) (r_y target))
      then
        (case (if js_lt (p_x current) (r_x target) \<and> js_lt (p_y current) (r_y target)
               then Some (if coin steps then 1 else 0)
               else if js_lt (p_x current) (r_x target) then Some 1
               else if js_lt (p_y current) (r_y target) then Some 0
               else None) of
           None \<Rightarrow> path
         | Some (act :: nat) \<Rightarrow>
             if act = 0 \<and> js_lt (p_y current) (Num (gridSizeY m - 1)) then
               generateDQNPath_loop m coin target (current\<lparr>p_y := js_incr (p_y current)\<rparr>) (steps + 1)
                 (path @ [\<lparr>s_x = p_x current, s_y = js_incr (p_y current),
                            action = ''UP'', step = Some (steps + 1)\<rparr>])
             else if act = 1 \<and> js_lt (p_x current) (Num (gridSizeX m - 1)) then
               generateDQNPath_loop m coin target (current\<lparr>p_x := js_incr (p_x current)\<rparr>) (steps + 1)
                 (path @ [\<lparr>s_x = js_incr (p_x current), s_y = p_y current,
                            action = ''RIGHT'', step = Some (steps + 1)\<rparr>])
             else path)
      else path)"
    by (rule generateDQNPath_loop.simps)
  show ?thesis
    unfolding eq by (simp split: option.splits) blast
qed

lemma length_generateDQNPath_loop:
  "maxSteps - steps = k \<Longrightarrow>
   length (generateDQNPath_loop m coin target current steps path) \<le> length path + k"
proof (induction k arbitrary: current steps path)
  case 0
  then show ?case
    using generateDQNPath_loop_unfold [of m coin target current steps path] by auto
next
  case (Suc k)
  from generateDQNPath_loop_unfold [of m coin target current steps path]
  show ?case
  proof
    assume "generateDQNPath_loop m coin target current steps path = path"
    then show ?thesis by simp
  next
    assume "steps < maxSteps \<and>
      (\<exists>current' s. generateDQNPath_loop m coin target current steps path
                   = generateDQNPath_loop m coin target current' (steps + 1) (path @ [s]))"
    then obtain current' s where
      again: "generateDQNPath_loop m coin target current steps path
                = generateDQNPath_loop m coin target current' (steps + 1) (path @ [s])"
      by blast
    have "maxSteps - (steps + 1) = k" using Suc.prems by simp
    from Suc.IH [OF this, of current' "path @ [s]"] again
    show ?thesis by simp
  qed
qed

lemma length_generateDQNPath:
  "length (generateDQNPath m coin start target) \<le> maxSteps"
  using length_generateDQNPath_loop [of 0 maxSteps m coin target start "[]"]
  by (simp add: generateDQNPath_def)

lemma finalCell_Cons: "finalCell c (s # ss) = finalCell (s_x s, s_y s) ss"
  by (simp add: finalCell_def)

lemma generateDQNPath_loop_reaches:
  assumes "r_x target = Num tx" and "r_y target = Num ty"
      and "tx \<le> gridSizeX m - 1" and "ty \<le> gridSizeY m - 1"
      and "tx \<le> safeBound" and "ty \<le> safeBound"
  shows "cx \<le> tx \<Longrightarrow> cy \<le> ty \<Longrightarrow> nat ((tx - cx) + (ty - cy)) = n \<Longrightarrow> steps + n \<le> maxSteps \<Longrightarrow>
         - safeBound \<le> cx \<Longrightarrow> - safeBound \<le> cy \<Longrightarrow>
         \<exists>new. generateDQNPath_loop m coin target \<lparr>p_x = Num cx, p_y = Num cy\<rparr> steps path = path @ new
              \<and> length new = n
              \<and> unitMoves target (Num cx, Num cy) new
              \<and> finalCell (Num cx, Num cy) new = (Num tx, Num ty)
              \<and> list_all (\<lambda>s. inRange cx tx (s_x s) \<and> inRange cy ty (s_y s)) new"
proof (induction n arbitrary: cx cy steps path)
  case 0
  then have "cx = tx" "cy = ty" by auto
  then show ?case
    using assms by (subst generateDQNPath_loop.simps) (simp add: finalCell_def)
next
  case (Suc n)
  have lt: "steps < maxSteps" using Suc.prems by simp
  consider (right) "cx < tx \<and> (cy < ty \<longrightarrow> coin steps)" | (up) "cy < ty \<and> (cx < tx \<longrightarrow> \<not> coin steps)"
    using Suc.prems by (cases "cx < tx"; cases "cy < ty") auto
  then show ?case
  proof cases
    case right
    have inc: "js_incr (Num cx) = Num (cx + 1)"
      using right Suc.prems(5) assms(5) by (intro js_incr_exact) auto
    let ?s = "\<lparr>s_x = Num (cx + 1), s_y = Num cy, action = ''RIGHT'', step = Some (steps + 1)\<rparr>"
    have "\<exists>new. generateDQNPath_loop m coin target \<lparr>p_x = Num (cx + 1), p_y = Num cy\<rparr> (steps + 1)
                   (path @ [?s]) = (path @ [?s]) @ new
              \<and> length new = n
              \<and> unitMoves target (Num (cx + 1), Num cy) new
              \<and> finalCell (Num (cx + 1), Num cy) new = (Num tx, Num ty)
              \<and> list_all (\<lambda>s. inRange (cx + 1) tx (s_x s) \<and> inRange cy ty (s_y s)) new"
      using Suc.prems right by (intro Suc.IH) auto
    then obtain new where new:
      "generateDQNPath_loop m coin target \<lparr>p_x = Num (cx + 1), p_y = Num cy\<rparr> (steps + 1)
                   (path @ [?s]) = (path @ [?s]) @ new"
      "length new = n" "unitMoves target (Num (cx + 1), Num cy) new"
      "finalCell (Num (cx + 1), Num cy) new = (Num tx, Num ty)"
      "list_all (\<lambda>s. inRange (cx + 1) tx (s_x s) \<and> inRange cy ty (s_y s)) new"
      by blast
    have box: "list_all (\<lambda>s. inRange cx tx (s_x s) \<and> inRange cy ty (s_y s)) new"
      using new(5) by (induction new) (auto elim: inRange.elims)
    have run: "generateDQNPath_loop m coin target \<lparr>p_x = Num cx, p_y = Num cy\<rparr> steps path
                 = path @ (?s # new)"
      using assms lt right new(1) Suc.prems(2) inc
      by (subst generateDQNPath_loop.simps) auto
    show ?thesis
      using run new(2,3,4) box right Suc.prems(2) assms(1) inc
      by (intro exI [of _ "?s # new"]) (simp add: finalCell_Cons towards_def)
  next
    case up
    have inc: "js_incr (Num cy) = Num (cy + 1)"
      using up Suc.prems(6) assms(6) by (intro js_incr_exact) auto
    let ?s = "\<lparr>s_x = Num cx, s_y = Num (cy + 1), action = ''UP'', step = Some (steps + 1)\<rparr>"
    have "\<exists>new. generateDQNPath_loop m coin target \<lparr>p_x = Num cx, p_y = Num (cy + 1)\<rparr> (steps + 1)
                   (path @ [?s]) = (path @ [?s]) @ new
              \<and> length new = n
              \<and> unitMoves target (Num cx, Num (cy + 1)) new
              \<and> finalCell (Num cx, Num (cy + 1)) new = (Num tx, Num ty)
              \<and> list_all (\<lambda>s. inRange cx tx (s_x s) \<and> inRange (cy + 1) ty (s_y s)) new"
      using Suc.prems up by (intro Suc.IH) auto
    then obtain new where new:
      "generateDQNPath_loop m coin target \<lparr>p_x = Num cx, p_y = Num (cy + 1)\<rparr> (steps + 1)
                   (path @ [?s]) = (path @ [?s]) @ new"
      "length new = n" "unitMoves target (Num cx, Num (cy + 1)) new"
      "finalCell (Num cx, Num (cy + 1)) new = (Num tx, Num ty)"
      "list_all (\<lambda>s. inRange cx tx (s_x s) \<and> inRange (cy + 1) ty (s_y s)) new"
      by blast
    have box: "list_all (\<lambda>s. inRange cx tx (s_x s) \<and> inRange cy ty (s_y s)) new"
      using new(5) by (induction new) (auto elim: inRange.elims)
    have run: "generateDQNPath_loop m coin target \<lparr>p_x = Num cx, p_y = Num cy\<rparr> steps path
                 = path @ (?s # new)"
      using assms lt up new(1) Suc.prems(1) inc
      by (subst generateDQNPath_loop.simps) auto
    show ?thesis
      using run new(2,3,4) box up Suc.prems(1) assms(2) inc
      by (intro exI [of _ "?s # new"]) (simp add: finalCell_Cons towards_def)
  qed
qed

lemma generateDQNPath_reaches:
  assumes "p_x start = Num sx" and "p_y start = Num sy"
      and "r_x target = Num tx" and "r_y target = Num ty"
      and "sx \<le> tx" and "sy \<le> ty"
      and "tx \<le> gridSizeX m - 1" and "ty \<le> gridSizeY m - 1"
      and "(tx - sx) + (ty - sy) \<le> int maxSteps"
      and "- safeBound \<le> sx" and "- safeBound \<le> sy"
      and "tx \<le> safeBound" and "ty \<le> safeBound"
  shows "unitMoves target (Num sx, Num sy) (generateDQNPath m coin start target)
       \<and> finalCell (Num sx, Num sy) (generateDQNPath m coin start target) = (Num tx, Num ty)
       \<and> length (generateDQNPath m coin start target) = nat ((tx - sx) + (ty - sy))
       \<and> length (generateDQNPath m coin start target) \<le> maxSteps
       \<and> list_all (\<lambda>s. inRange sx tx (s_x s) \<and> inRange sy ty (s_y s))
            (generateDQNPath m coin start target)"
proof -
  have start: "start = \<lparr>p_x = Num sx, p_y = Num sy\<rparr>"
    using assms(1,2) by (cases start) simp
  have "\<exists>new. generateDQNPath_loop m coin target \<lparr>p_x = Num sx, p_y = Num sy\<rparr> 0 [] = [] @ new
            \<and> length new = nat ((tx - sx) + (ty - sy))
            \<and> unitMoves target (Num sx, Num sy) new
            \<and> finalCell (Num sx, Num sy) new = (Num tx, Num ty)
            \<and> list_all (\<lambda>s. inRange sx tx (s_x s) \<and> inRange sy ty (s_y s)) new"
    using assms(5-)
    by (intro generateDQNPath_loop_reaches [OF assms(3,4)]) auto
  then show ?thesis
    using assms(9,5,6) by (auto simp: generateDQNPath_def start)
qed

subsection \<open>The loop of the earlier server\<close>

text \<open>
  On integer positions every round moves, so the path grows and the loop returns, with
  51 steps at most (the \<open>break\<close> comes after the push that makes the length exceed
  50). With coordinates within the magnitude \<open>2 ^ 53\<close>, a target no farther than
  what is left of the 51 steps is reached. From a position without numbers no round
  moves, the path stays empty and the loop never returns.
\<close>

lemma Mock_move_pushes:
  assumes "r_x target = Num tx" and "r_y target = Num ty"
      and "cx \<noteq> tx \<or> cy \<noteq> ty"
  shows "\<exists>cx' cy' s.
           Mock_move target \<lparr>p_x = Num cx, p_y = Num cy\<rparr> path
             = (\<lparr>p_x = Num cx', p_y = Num cy'\<rparr>, path @ [s])"
  using assms by (auto simp: Mock_move_def)

lemma Mock_move_ints:
  assumes "r_x target = Num tx" and "r_y target = Num ty"
      and "cx \<noteq> tx \<or> cy \<noteq> ty"
      and "- safeBound \<le> cx" and "cx \<le> safeBound" and "- safeBound \<le> cy" and "cy \<le> safeBound"
      and "- safeBound \<le> tx" and "tx \<le> safeBound" and "- safeBound \<le> ty" and "ty \<le> safeBound"
  shows "\<exists>cx' cy' s.
           Mock_move target \<lparr>p_x = Num cx, p_y = Num cy\<rparr> path
             = (\<lparr>p_x = Num cx', p_y = Num cy'\<rparr>, path @ [s])
           \<and> s_x s = Num cx' \<and> s_y s = Num cy'
           \<and> towards target (Num cx, Num cy) s
           \<and> \<bar>tx - cx'\<bar> + \<bar>ty - cy'\<bar> = \<bar>tx - cx\<bar> + \<bar>ty - cy\<bar> - 1
           \<and> - safeBound \<le> cx' \<and> cx' \<le> safeBound \<and> - safeBound \<le> cy' \<and> cy' \<le> safeBound"
proof -
  consider (right) "cx < tx" | (left) "tx < cx" | (up) "cx = tx" "cy < ty" | (down) "cx = tx" "ty < cy"
    using assms(3) by linarith
  then show ?thesis
  proof cases
    case right
    have "js_incr (Num cx) = Num (cx + 1)"
      using right assms(4,9) by (intro js_incr_exact) auto
    then show ?thesis
      using assms right by (auto simp: Mock_move_def towards_def)
  next
    case left
    have "js_decr (Num cx) = Num (cx - 1)"
      using left assms(5,8) by (intro js_decr_exact) auto
    then show ?thesis
      using assms left by (auto simp: Mock_move_def towards_def)
  next
    case up
    have "js_incr (Num cy) = Num (cy + 1)"
      using up assms(6,11) by (intro js_incr_exact) auto
    then show ?thesis
      using assms up by (auto simp: Mock_move_def towards_def)
  next
    case down
    have "js_decr (Num cy) = Num (cy - 1)"
      using down assms(7,10) by (intro js_decr_exact) auto
    then show ?thesis
      using assms down by (auto simp: Mock_move_def towards_def)
  qed
qed

lemma Mock_loop_terminates:
  assumes "r_x target = Num tx" and "r_y target = Num ty"
  shows "51 - length path = k \<Longrightarrow>
         \<exists>out. Mock_generatePathTo_loop target \<lparr>p_x = Num cx, p_y = Num cy\<rparr> path = Some out
              \<and> length out \<le> max (length path + 1) 51"
proof (induction k arbitrary: cx cy path)
  case 0
  show ?case
  proof (cases "cx \<noteq> tx \<or> cy \<noteq> ty")
    case False
    then show ?thesis using assms by (subst Mock_generatePathTo_loop.simps) simp
  next
    case True
    from Mock_move_pushes [OF assms True, of path] obtain cx' cy' s where
      mv: "Mock_move target \<lparr>p_x = Num cx, p_y = Num cy\<rparr> path
             = (\<lparr>p_x = Num cx', p_y = Num cy'\<rparr>, path @ [s])"
      by blast
    show ?thesis
      using assms True mv 0 by (subst Mock_generatePathTo_loop.simps) auto
  qed
next
  case (Suc k)
  show ?case
  proof (cases "cx \<noteq> tx \<or> cy \<noteq> ty")
    case False
    then show ?thesis using assms by (subst Mock_generatePathTo_loop.simps) simp
  next
    case True
    from Mock_move_pushes [OF assms True, of path] obtain cx' cy' s where
      mv: "Mock_move target \<lparr>p_x = Num cx, p_y = Num cy\<rparr> path
             = (\<lparr>p_x = Num cx', p_y = Num cy'\<rparr>, path @ [s])"
      by blast
    have "51 - length (path @ [s]) = k" using Suc.prems by simp
    from Suc.IH [OF this, of cx' cy'] obtain out where
      out: "Mock_generatePathTo_loop target \<lparr>p_x = Num cx', p_y = Num cy'\<rparr> (path @ [s]) = Some out"
           "length out \<le> max (length (path @ [s]) + 1) 51"
      by blast
    show ?thesis
      using assms True mv out Suc.prems by (subst Mock_generatePathTo_loop.simps) auto
  qed
qed

lemma Mock_loop_reaches:
  assumes "r_x target = Num tx" and "r_y target = Num ty"
      and "- safeBound \<le> tx" and "tx \<le> safeBound" and "- safeBound \<le> ty" and "ty \<le> safeBound"
  shows "nat (\<bar>tx - cx\<bar> + \<bar>ty - cy\<bar>) = n \<Longrightarrow> length path + n \<le> 51 \<Longrightarrow>
         - safeBound \<le> cx \<Longrightarrow> cx \<le> safeBound \<Longrightarrow> - safeBound \<le> cy \<Longrightarrow> cy \<le> safeBound \<Longrightarrow>
         \<exists>new. Mock_generatePathTo_loop target \<lparr>p_x = Num cx, p_y = Num cy\<rparr> path = Some (path @ new)
              \<and> length new = n
              \<and> unitMoves target (Num cx, Num cy) new
              \<and> finalCell (Num cx, Num cy) new = (Num tx, Num ty)"
proof (induction n arbitrary: cx cy path)
  case 0
  then have "cx = tx" "cy = ty" by auto
  then show ?case
    using assms(1,2) by (subst Mock_generatePathTo_loop.simps) (simp add: finalCell_def)
next
  case (Suc n)
  then have away: "cx \<noteq> tx \<or> cy \<noteq> ty" by auto
  from Mock_move_ints [OF assms(1,2) away Suc.prems(3,4,5,6) assms(3,4,5,6), of path]
  obtain cx' cy' s where
    mv: "Mock_move target \<lparr>p_x = Num cx, p_y = Num cy\<rparr> path
           = (\<lparr>p_x = Num cx', p_y = Num cy'\<rparr>, path @ [s])"
    and s: "s_x s = Num cx'" "s_y s = Num cy'" "towards target (Num cx, Num cy) s"
    and closer: "\<bar>tx - cx'\<bar> + \<bar>ty - cy'\<bar> = \<bar>tx - cx\<bar> + \<bar>ty - cy\<bar> - 1"
    and bounds: "- safeBound \<le> cx'" "cx' \<le> safeBound" "- safeBound \<le> cy'" "cy' \<le> safeBound"
    by blast
  have n: "nat (\<bar>tx - cx'\<bar> + \<bar>ty - cy'\<bar>) = n" using closer Suc.prems(1) by arith
  show ?case
  proof (cases "50 < length (path @ [s])")
    case True
    then have "n = 0" using Suc.prems(2) by simp
    then have here: "cx' = tx" "cy' = ty" using n by auto
    have "Mock_generatePathTo_loop target \<lparr>p_x = Num cx, p_y = Num cy\<rparr> path = Some (path @ [s])"
      using assms(1,2) away mv True by (subst Mock_generatePathTo_loop.simps) auto
    then show ?thesis
      using s here \<open>n = 0\<close> by (intro exI [of _ "[s]"]) (simp add: finalCell_def)
  next
    case False
    have "length (path @ [s]) + n \<le> 51" using Suc.prems(2) by simp
    from Suc.IH [OF n this bounds] obtain new where new:
      "Mock_generatePathTo_loop target \<lparr>p_x = Num cx', p_y = Num cy'\<rparr> (path @ [s])
         = Some ((path @ [s]) @ new)"
      "length new = n" "unitMoves target (Num cx', Num cy') new"
      "finalCell (Num cx', Num cy') new = (Num tx, Num ty)"
      by blast
    have "Mock_generatePathTo_loop target \<lparr>p_x = Num cx, p_y = Num cy\<rparr> path = Some (path @ (s # new))"
      using assms(1,2) away mv False new(1) by (subst Mock_generatePathTo_loop.simps) auto
    then show ?thesis
      using s new(2,3,4) by (intro exI [of _ "s # new"]) (simp add: finalCell_Cons)
  qed
qed

lemma Mock_generatePathTo_reaches:
  assumes "p_x start = Num sx" and "p_y start = Num sy"
      and "r_x target = Num tx" and "r_y target = Num ty"
      and "\<bar>tx - sx\<bar> + \<bar>ty - sy\<bar> \<le> 50"
      and "- safeBound \<le> sx" and "sx \<le> safeBound" and "- safeBound \<le> sy" and "sy \<le> safeBound"
      and "- safeBound \<le> tx" and "tx \<le> safeBound" and "- safeBound \<le> ty" and "ty \<le> safeBound"
  shows "\<exists>path. Mock_generatePathTo start target = Some path
           \<and> unitMoves target (Num sx, Num sy) path
           \<and> finalCell (Num sx, Num sy) path = (Num tx, Num ty)
           \<and> length path = nat (\<bar>tx - sx\<bar> + \<bar>ty - sy\<bar>)
           \<and> length path \<le> 50"
proof -
  have start: "start = \<lparr>p_x = Num sx, p_y = Num sy\<rparr>"
    using assms(1,2) by (cases start) simp
  have "\<exists>new. Mock_generatePathTo_loop target \<lparr>p_x = Num sx, p_y = Num sy\<rparr> [] = Some ([] @ new)
            \<and> length new = nat (\<bar>tx - sx\<bar> + \<bar>ty - sy\<bar>)
            \<and> unitMoves target (Num sx, Num sy) new
            \<and> finalCell (Num sx, Num sy) new = (Num tx, Num ty)"
    using assms(5-9)
    by (intro Mock_loop_reaches [OF assms(3,4,10,11,12,13)]) auto
  then show ?thesis
    using assms(5) by (auto simp: Mock_generatePathTo_def start)
qed

lemma Mock_loop_stuck:
  assumes "Mock_generatePathTo_loop target current path = Some out"
  shows "\<not> (p_x current = NaN \<and> p_y current = NaN \<and> length path \<le> 50)"
proof (rule Mock_generatePathTo_loop.raw_induct
         [where P = "\<lambda>target current path out.
                       \<not> (p_x current = NaN \<and> p_y current = NaN \<and> length path \<le> 50)",
          OF _ assms], goal_cases)
  case (1 loop t c pth res)
  show ?case
  proof
    assume stuck: "p_x c = NaN \<and> p_y c = NaN \<and> length pth \<le> 50"
    then have "Mock_move t c pth = (c, pth)"
      by (simp add: Mock_move_def)
    with stuck 1(2) have "loop t c pth = Some res" by simp
    from 1(1) [OF this] stuck show False by simp
  qed
qed

lemma Mock_generatePathTo_never_returns:
  "Mock_generatePathTo \<lparr>p_x = NaN, p_y = NaN\<rparr> target = None"
proof (cases "Mock_generatePathTo \<lparr>p_x = NaN, p_y = NaN\<rparr> target")
  case (Some out)
  then show ?thesis
    using Mock_loop_stuck [of target "\<lparr>p_x = NaN, p_y = NaN\<rparr>" "[]" out]
    by (simp add: Mock_generatePathTo_def)
qed simp

text \<open>
  Claim C4 says that towards every target cell of the grid within the step bound the
  path ends exactly at the target. The enhanced server does not when the target is to
  the left of or below the start: from (5, 5) towards (3, 3), at distance 4, no branch
  of the loop applies, the round ends at \<open>break; // Already at target\<close> with the
  position still at (5, 5), and the path is empty, for every outcome of the random
  choices. The earlier server walks left and down and arrives in 4 steps. Towards a
  target that is neither to the left nor below, the enhanced server arrives
  (\<open>generateDQNPath_reaches\<close>).
\<close>

theorem generateDQNPath_stops_before_lower_target:
  "generateDQNPath EnhancedDQNModel coin \<lparr>p_x = Num 5, p_y = Num 5\<rparr>
      \<lparr>r_name = name, r_x = Num 3, r_y = Num 3\<rparr> = []
   \<and> finalCell (Num 5, Num 5)
        (generateDQNPath EnhancedDQNModel coin \<lparr>p_x = Num 5, p_y = Num 5\<rparr>
           \<lparr>r_name = name, r_x = Num 3, r_y = Num 3\<rparr>) = (Num 5, Num 5)
   \<and> (\<exists>path. Mock_generatePathTo \<lparr>p_x = Num 5, p_y = Num 5\<rparr>
                  \<lparr>r_name = name, r_x = Num 3, r_y = Num 3\<rparr> = Some path
          \<and> finalCell (Num 5, Num 5) path = (Num 3, Num 3) \<and> length path = 4)"
proof -
  have empty: "generateDQNPath EnhancedDQNModel coin \<lparr>p_x = Num 5, p_y = Num 5\<rparr>
      \<lparr>r_name = name, r_x = Num 3, r_y = Num 3\<rparr> = []"
    by (simp add: generateDQNPath_def generateDQNPath_loop.simps maxSteps_def)
  have "\<exists>path. Mock_generatePathTo \<lparr>p_x = Num 5, p_y = Num 5\<rparr>
                  \<lparr>r_name = name, r_x = Num 3, r_y = Num 3\<rparr> = Some path
           \<and> unitMoves \<lparr>r_name = name, r_x = Num 3, r_y = Num 3\<rparr> (Num 5, Num 5) path
           \<and> finalCell (Num 5, Num 5) path = (Num 3, Num 3)
           \<and> length path = nat (\<bar>3 - 5\<bar> + \<bar>3 - 5\<bar>)
           \<and> length path \<le> 50"
    by (rule Mock_generatePathTo_reaches) (simp_all add: safeBound_def)
  then have sibling: "\<exists>path. Mock_generatePathTo \<lparr>p_x = Num 5, p_y = Num 5\<rparr>
                  \<lparr>r_name = name, r_x = Num 3, r_y = Num 3\<rparr> = Some path
          \<and> finalCell (Num 5, Num 5) path = (Num 3, Num 3) \<and> length path = 4"
    by auto
  show ?thesis
    using empty sibling by (simp add: finalCell_def)
qed

text \<open>
  Claim C5 says that the path construction terminates on every input, malformed
  positions included, with at most the configured bound of steps. The loop of the
  earlier server does not: from a position whose coordinates are missing (as in a
  request with \<open>currentPosition: {}\<close>) it never returns, for any target; and with
  the guard \<open>path.length > 50\<close> it returns 51 steps towards a target 51 cells away.
  The loop of the enhanced server is bounded by its step counter
  (\<open>length_generateDQNPath\<close>).
\<close>

theorem Mock_generatePathTo_not_bounded:
  "Mock_generatePathTo \<lparr>p_x = NaN, p_y = NaN\<rparr> target = None
   \<and> map_option length
        (Mock_generatePathTo \<lparr>p_x = Num 0, p_y = Num 0\<rparr> \<lparr>r_name = ''B'', r_x = Num 51, r_y = Num 0\<rparr>)
       = Some 51"
proof -
  have "\<exists>new. Mock_generatePathTo_loop \<lparr>r_name = ''B'', r_x = Num 51, r_y = Num 0\<rparr>
                 \<lparr>p_x = Num 0, p_y = Num 0\<rparr> [] = Some ([] @ new) \<and> length new = 51
              \<and> unitMoves \<lparr>r_name = ''B'', r_x = Num 51, r_y = Num 0\<rparr> (Num 0, Num 0) new
              \<and> finalCell (Num 0, Num 0) new = (Num 51, Num 0)"
    by (rule Mock_loop_reaches) (simp_all add: safeBound_def)
  then have far: "map_option length
        (Mock_generatePathTo \<lparr>p_x = Num 0, p_y = Num 0\<rparr> \<lparr>r_name = ''B'', r_x = Num 51, r_y = Num 0\<rparr>)
       = Some 51"
    by (auto simp: Mock_generatePathTo_def)
  show ?thesis
    using far Mock_generatePathTo_never_returns [of target] by (rule conjI [rotated])
qed

section \<open>Positions of the catalog\<close>

text \<open>
  In the enhanced server every resource whose two fields are numbers gets a cell of the
  grid.
\<close>

lemma getResourcePositions_in_grid:
  assumes "0 < gridSizeX m" and "0 < gridSizeY m"
      and "list_all (\<lambda>(name, data). x_coordinate data \<noteq> NotANumber \<and> y_coordinate data \<noteq> NotANumber)
             extractedData"
  shows "list_all (\<lambda>r. inRange 0 (gridSizeX m - 1) (r_x r) \<and> inRange 0 (gridSizeY m - 1) (r_y r))
           (getResourcePositions m extractedData)"
proof -
  have clamp: "inRange 0 (g - 1) (js_max (Num 0) (js_min (floorScaled c g) (Num (g - 1))))"
    if "0 < g" "c \<noteq> NotANumber" for g c
    using that by (cases c) auto
  show ?thesis
    using assms by (auto simp: getResourcePositions_def Let_def list_all_iff clamp)
qed

text \<open>
  Claim C9 says that every position of the catalog is scaled by the grid dimension and
  clamped to the grid. The earlier server scales by 100 and shifts by the minimum,
  without a clamp: of two resources at (0.1, 0.1) and (0.9, 0.5), the second is placed
  at (80, 40), outside the grid of 20 by 20 that the same server reports.
\<close>

theorem Mock_getResourcePositions_outside_grid:
  "map (\<lambda>r. (r_x r, r_y r))
     (Mock_getResourcePositions
        [(''A'', \<lparr>x_coordinate = Finite (1 / 10), y_coordinate = Finite (1 / 10)\<rparr>),
         (''B'', \<lparr>x_coordinate = Finite (9 / 10), y_coordinate = Finite (1 / 2)\<rparr>)])
     = [(Num 0, Num 0), (Num 80, Num 40)]
   \<and> inRange 0 (Mock_gridSizeX - 1) (Num 80) = False
   \<and> inRange 0 (Mock_gridSizeY - 1) (Num 40) = False"
  by (simp add: Mock_getResourcePositions_def SCALE_def Mock_gridSizeX_def Mock_gridSizeY_def Let_def)

end
